theory Spec2Isabelle
  imports Main "HOL-Library.AList"
begin

chapter \<open>The programs\<close>

section \<open>Python values, dictionaries and exceptions\<close>

text \<open>
  The scripts pass untyped dictionaries around.  A value is \<open>None\<close>, a string, an integer,
  a \<open>datetime\<close> object (held as its unix time) or a nested dictionary.  A dictionary is an
  association list with one entry per key: assignment to a key keeps the entry's place or
  appends it, as Python does.
\<close>

datatype val = VNone | VStr string | VInt int | VDatetime int | VDict "(string \<times> val) list"

type_synonym dict = "(string \<times> val) list"

text \<open>
  The exceptions the scripts can meet.  All of them derive from Python's \<open>Exception\<close>, so
  an \<open>except Exception\<close> clause catches each of them.
\<close>

datatype exn =
    KeyError | TypeError | IndexError | ValueError | AttributeError
  | DatabaseError | InvalidRequestError | ConnectionError | RemoteError

definition and_then :: "exn + 'a \<Rightarrow> ('a \<Rightarrow> exn + 'b) \<Rightarrow> exn + 'b" where
  "and_then r f = (case r of Inl e \<Rightarrow> Inl e | Inr x \<Rightarrow> f x)"

definition getitem :: "dict \<Rightarrow> string \<Rightarrow> exn + val" where
  "getitem d k = (case map_of d k of None \<Rightarrow> Inl KeyError | Some v \<Rightarrow> Inr v)"

definition setitem :: "dict \<Rightarrow> string \<Rightarrow> val \<Rightarrow> dict" where
  "setitem d k v = AList.update k v d"


text \<open>\<open>dict(zip(keys, values))\<close>: a later pair with the same key replaces the earlier one.\<close>

definition dict_of_zip :: "string list \<Rightarrow> val list \<Rightarrow> dict" where
  "dict_of_zip ks vs = foldl (\<lambda>d (k, v). setitem d k v) [] (zip ks vs)"

fun truthy :: "val \<Rightarrow> bool" where
  "truthy VNone = False"
| "truthy (VStr s) = (s \<noteq> [])"
| "truthy (VInt n) = (n \<noteq> 0)"
| "truthy (VDatetime t) = True"
| "truthy (VDict d) = (d \<noteq> [])"

text \<open>
  What the scripts take from the Python runtime and its libraries: date formatting and
  parsing, the local time zone, MD5, \<open>str.title\<close>, \<open>str\<close> and \<open>json.dumps\<close> of a value, and
  \<open>float(v) / 100\<close> (binary floating point is left to the runtime).
\<close>

record runtime =
  strftime :: "string \<Rightarrow> int \<Rightarrow> string"
  parse :: "string \<Rightarrow> int option"
  fromutc :: "int \<Rightarrow> int"
  md5_hexdigest :: "string \<Rightarrow> string"
  title :: "string \<Rightarrow> string"
  float_div_100 :: "val \<Rightarrow> exn + val"
  str_of :: "val \<Rightarrow> string"
  json_dumps :: "val \<Rightarrow> string"

section \<open>Stripe staging scan: \<open>get_all_dynamo_data\<close>\<close>

text \<open>
  \<open>stripe_events_dw_salesforce.py\<close>, lines 37-47.  One response of \<open>table.scan\<close> carries the
  page's \<open>Items\<close> and, when more pages follow, a \<open>LastEvaluatedKey\<close>.  The table is the
  function answering a scan request: \<open>None\<close> is the first call \<open>table.scan()\<close>, \<open>Some k\<close> is
  \<open>table.scan(ExclusiveStartKey=k)\<close>.  The JSON round trip through \<open>DecimalEncoder\<close> that
  is applied to every item is the parameter \<open>js\<close>.
\<close>

record ('k, 'i) response =
  Items :: "'i list"
  LastEvaluatedKey :: "'k option"

text \<open>
  The \<open>while 'LastEvaluatedKey' in response\<close> loop, with \<open>all_pages\<close> as accumulator.  The
  loop runs for as long as the service keeps answering with a key, so it is a partial
  function: \<open>None\<close> stands for a scan that never ends.
\<close>

partial_function (option) scan_rest ::
  "('k option \<Rightarrow> ('k, 'i) response) \<Rightarrow> ('i \<Rightarrow> 'j) \<Rightarrow> ('k, 'i) response \<Rightarrow> 'j list \<Rightarrow> 'j list option"
where
  "scan_rest scan js response all_pages =
     (case LastEvaluatedKey response of
        None \<Rightarrow> Some all_pages
      | Some k \<Rightarrow>
          (let response' = scan (Some k)
           in scan_rest scan js response' (all_pages @ map js (Items response'))))"

definition get_all_dynamo_data ::
  "('k option \<Rightarrow> ('k, 'i) response) \<Rightarrow> ('i \<Rightarrow> 'j) \<Rightarrow> 'j list option"
where
  "get_all_dynamo_data scan js =
     (let response = scan None;
          page_1 = map js (Items response)
      in case scan_rest scan js response [] of
           None \<Rightarrow> None
         | Some all_pages \<Rightarrow> Some (if all_pages \<noteq> [] then all_pages else page_1))"

text \<open>
  \<open>follows scan r rs\<close>: the responses \<open>rs\<close> are exactly the pages the service hands out
  after the response \<open>r\<close>, the last of them without a \<open>LastEvaluatedKey\<close>.
\<close>

fun follows :: "('k option \<Rightarrow> ('k, 'i) response) \<Rightarrow> ('k, 'i) response \<Rightarrow> ('k, 'i) response list \<Rightarrow> bool"
where
  "follows scan r [] = (LastEvaluatedKey r = None)"
| "follows scan r (r' # rs) =
     (case LastEvaluatedKey r of
        None \<Rightarrow> False
      | Some k \<Rightarrow> scan (Some k) = r' \<and> follows scan r' rs)"

text \<open>A two-page table whose second page is empty, and one whose second page has an item.\<close>

definition table_empty_tail :: "nat option \<Rightarrow> (nat, string) response" where
  "table_empty_tail k =
     (if k = None then \<lparr>Items = [''evt_1''], LastEvaluatedKey = Some 1\<rparr>
      else \<lparr>Items = [], LastEvaluatedKey = None\<rparr>)"

definition table_two_pages :: "nat option \<Rightarrow> (nat, string) response" where
  "table_two_pages k =
     (if k = None then \<lparr>Items = [''evt_1''], LastEvaluatedKey = Some 1\<rparr>
      else \<lparr>Items = [''evt_2''], LastEvaluatedKey = None\<rparr>)"

section \<open>\<open>utils/helpers.py\<close>: the \<open>MySQLRpts\<close> connection\<close>

text \<open>
  SQL texts as the scripts build them: the two audit-log inserts of \<open>etl_log\<close>, the
  statement \<open>create_stmt\<close> puts together for a table and its columns, the watermark query
  \<open>"select from_unixtime(%s)" % v\<close>, and \<open>insert into A select * from B;\<close>.
\<close>

datatype sql =
    InsertAuditLog
  | InsertAuditLogNoDate
  | InsertInto string string "string list"
  | SelectFromUnixtime val
  | InsertSelect string string

text \<open>
  The cursor and connection of \<open>MySQLdb\<close> over a database state \<open>'db\<close>.  Each call either
  raises or gives the next state; \<open>fetchall\<close> gives the column names of
  \<open>cursor.description\<close> and the rows of the statement just executed.
\<close>

record 'db connection =
  execute :: "sql \<Rightarrow> val list \<Rightarrow> 'db \<Rightarrow> exn + 'db"
  executemany :: "sql \<Rightarrow> dict list \<Rightarrow> 'db \<Rightarrow> exn + 'db"
  commit :: "'db \<Rightarrow> exn + 'db"
  fetchall :: "sql \<Rightarrow> 'db \<Rightarrow> exn + (string list \<times> val list list)"

text \<open>
  \<open>convert_datetime(dt, for_insert, convert_UTC)\<close>, lines 198-215.  Anything that is not a
  \<open>datetime\<close> goes through \<open>dateutil.parser.parse\<close>, which raises on text it cannot read
  and on a value that is not text.
\<close>

definition convert_datetime :: "runtime \<Rightarrow> val \<Rightarrow> bool \<Rightarrow> bool \<Rightarrow> exn + val" where
  "convert_datetime rt dt for_insert convert_UTC =
     and_then
       (case dt of
          VDatetime t \<Rightarrow> Inr t
        | VStr s \<Rightarrow> (case parse rt s of None \<Rightarrow> Inl ValueError | Some t \<Rightarrow> Inr t)
        | _ \<Rightarrow> Inl TypeError)
       (\<lambda>parsed_date.
          if \<not> for_insert then
            if \<not> convert_UTC then Inr (VStr (strftime rt ''%Y-%m-%d %H:%M:%S'' parsed_date))
            else Inr (VStr (strftime rt ''%Y-%m-%d %H:%M:%S'' (fromutc rt parsed_date)))
          else
            if \<not> convert_UTC then Inr (VDatetime parsed_date)
            else Inr (VDatetime (fromutc rt parsed_date)))"

text \<open>
  \<open>etl_log\<close>, lines 217-231.  The conversion of \<open>max_date\<close> happens while the arguments
  are built, before the \<open>try\<close>; only \<open>execute\<close> and \<open>commit\<close> are inside it.  A statement
  that raised leaves the database as it was.
\<close>

definition etl_log ::
  "runtime \<Rightarrow> 'db connection \<Rightarrow> val \<Rightarrow> val \<Rightarrow> val \<Rightarrow> val \<Rightarrow> 'db \<Rightarrow> (exn + unit) \<times> 'db"
where
  "etl_log rt conn etl_process source target max_date db =
     (case (if truthy max_date
            then and_then (convert_datetime rt max_date True False)
                   (\<lambda>d. Inr (InsertAuditLog, [etl_process, source, target, d]))
            else Inr (InsertAuditLogNoDate, [etl_process, source, target])) of
        Inl e \<Rightarrow> (Inl e, db)
      | Inr (insert_stmt, data) \<Rightarrow>
          (case and_then (execute conn insert_stmt data db) (commit conn) of
             Inl e \<Rightarrow> (Inr (), db)
           | Inr db' \<Rightarrow> (Inr (), db')))"

text \<open>\<open>exec_simple\<close>, lines 233-241.\<close>

definition exec_simple :: "'db connection \<Rightarrow> sql \<Rightarrow> 'db \<Rightarrow> (exn + unit) \<times> 'db" where
  "exec_simple conn stmt db =
     (case and_then (execute conn stmt [] db) (commit conn) of
        Inl e \<Rightarrow> (Inr (), db)
      | Inr db' \<Rightarrow> (Inr (), db'))"

text \<open>\<open>insert_data\<close>, lines 289-297.\<close>

definition insert_data :: "'db connection \<Rightarrow> sql \<Rightarrow> dict list \<Rightarrow> 'db \<Rightarrow> (exn + unit) \<times> 'db" where
  "insert_data conn stmt data db =
     (case and_then (executemany conn stmt data db) (commit conn) of
        Inl e \<Rightarrow> (Inr (), db)
      | Inr db' \<Rightarrow> (Inr (), db'))"







section \<open>A warehouse and a runtime to run the scripts against\<close>

text \<open>
  The MySQL server the scripts talk to is not part of the repository.  To run the
  scripts, the warehouse is taken to hold the audit log and named tables of rows; a
  statement is either rejected (\<open>rejects stmt\<close>, for whatever reason the server has) or
  does what its SQL says.  \<open>from_unixtime(t)\<close> answers with the \<open>datetime\<close> of the unix
  time \<open>t\<close>.
\<close>

record mysql =
  etl_audit_log :: "val list list"
  tables :: "string \<Rightarrow> dict list"

definition mysql_server :: "(sql \<Rightarrow> bool) \<Rightarrow> mysql connection" where
  "mysql_server rejects =
     \<lparr>execute = (\<lambda>stmt args db.
         if rejects stmt then Inl DatabaseError
         else (case stmt of
                 InsertAuditLog \<Rightarrow> Inr (db\<lparr>etl_audit_log := etl_audit_log db @ [args]\<rparr>)
               | InsertAuditLogNoDate \<Rightarrow> Inr (db\<lparr>etl_audit_log := etl_audit_log db @ [args @ [VNone]]\<rparr>)
               | InsertSelect dst src \<Rightarrow>
                   Inr (db\<lparr>tables := (tables db)(dst := tables db dst @ tables db src)\<rparr>)
               | _ \<Rightarrow> Inr db)),
      executemany = (\<lambda>stmt rows db.
         if rejects stmt then Inl DatabaseError
         else (case stmt of
                 InsertInto _ table _ \<Rightarrow>
                   Inr (db\<lparr>tables := (tables db)(table := tables db table @ rows)\<rparr>)
               | _ \<Rightarrow> Inr db)),
      commit = Inr,
      fetchall = (\<lambda>stmt db.
         case stmt of
           SelectFromUnixtime (VInt t) \<Rightarrow> Inr ([''from_unixtime''], [[VDatetime t]])
         | _ \<Rightarrow> Inr ([], []))\<rparr>"

definition empty_warehouse :: mysql where
  "empty_warehouse = \<lparr>etl_audit_log = [], tables = (\<lambda>_. [])\<rparr>"

text \<open>
  A runtime for the concrete runs: a date is written as that many strokes, and read back
  from strokes only; the other library functions leave text as it is, and
  \<open>float(v) / 100\<close> is defined on integers.
\<close>

definition strokes :: runtime where
  "strokes =
     \<lparr>strftime = (\<lambda>fmt t. replicate (nat t) (CHR ''I'')),
      parse = (\<lambda>s. if s \<noteq> [] \<and> list_all (\<lambda>c. c = CHR ''I'') s then Some (int (length s)) else None),
      fromutc = (\<lambda>t. t),
      md5_hexdigest = (\<lambda>s. s),
      title = (\<lambda>s. s),
      float_div_100 = (\<lambda>v. case v of VInt n \<Rightarrow> Inr (VInt (n div 100)) | _ \<Rightarrow> Inl TypeError),
      str_of = (\<lambda>v. case v of VStr s \<Rightarrow> s | _ \<Rightarrow> ''?''),
      json_dumps = (\<lambda>v. ''{}'')\<rparr>"

section \<open>Screening-list comparator: \<open>compare_orders_with_screening_list\<close>\<close>

text \<open>
  \<open>ExportControlSaleforcceAccountValidation.py\<close>, lines 76-81.  \<open>process.extract\<close> belongs
  to the fuzzywuzzy library: it scores every choice against the query and returns the
  five best (its default \<open>limit\<close>) as pairs of choice and score, best first, choices of
  equal score in the order of the list.  The scorer, \<open>fuzz.token_sort_ratio\<close> behind the
  library's default processor, is a parameter.
\<close>

definition process_extract :: "(string \<Rightarrow> string \<Rightarrow> int) \<Rightarrow> string \<Rightarrow> string list \<Rightarrow> (string \<times> int) list" where
  "process_extract scorer query choices =
     take 5 (sort_key (\<lambda>match. - snd match) (map (\<lambda>choice. (choice, scorer query choice)) choices))"

text \<open>\<open>possibilities\<close>, line 79: a dictionary from each order to its ranked candidates.\<close>

definition possibilities ::
  "(string \<Rightarrow> string \<Rightarrow> int) \<Rightarrow> string list \<Rightarrow> string list \<Rightarrow> (string \<times> (string \<times> int) list) list"
where
  "possibilities scorer ns_list screening_list =
     foldl (\<lambda>d order. AList.update order (process_extract scorer order screening_list) d) [] ns_list"

text \<open>
  \<open>results\<close>, line 80: the comprehension runs through every order and every candidate
  of it, and assigns \<open>results[order] = match[0]\<close> for each candidate scoring above 65.
\<close>

definition compare_orders_with_screening_list ::
  "(string \<Rightarrow> string \<Rightarrow> int) \<Rightarrow> string list \<Rightarrow> string list \<Rightarrow> (string \<times> string) list"
where
  "compare_orders_with_screening_list scorer ns_list screening_list =
     foldl (\<lambda>results (order, matches).
              foldl (\<lambda>results match.
                       if snd match > 65 then AList.update order (fst match) results else results)
                results matches)
       [] (possibilities scorer ns_list screening_list)"

text \<open>A scorer for a concrete run: 90 for the entry \<open>alpha\<close>, 70 for every other entry.\<close>

definition alpha_scorer :: "string \<Rightarrow> string \<Rightarrow> int" where
  "alpha_scorer query choice = (if choice = ''alpha'' then 90 else 70)"

section \<open>JIRA to Salesforce: the site lookup table\<close>

text \<open>
  \<open>ImportJIRADataIntoSalesforce.py\<close>.  \<open>fetch_salesforce_data\<close> turns each result row into
  \<open>dict(zip(keys, new_list))\<close> (line 28); line 46 builds the lookup table with the
  comprehension \<open>{row['companyname_Site_Code__c']: row['Name'] for row in ...}\<close>, an
  assignment \<open>table[key] = value\<close> per row.  A row without one of the two fields raises
  \<open>KeyError\<close>.
\<close>

fun dict_comprehension ::
  "string \<Rightarrow> string \<Rightarrow> dict list \<Rightarrow> (val \<times> val) list \<Rightarrow> exn + (val \<times> val) list"
where
  "dict_comprehension key_field value_field [] table = Inr table"
| "dict_comprehension key_field value_field (row # rows) table =
     and_then (getitem row key_field) (\<lambda>k.
     and_then (getitem row value_field) (\<lambda>v.
       dict_comprehension key_field value_field rows (AList.update k v table)))"

definition SitecompanynameCodesNames_dict :: "val list list \<Rightarrow> exn + (val \<times> val) list" where
  "SitecompanynameCodesNames_dict result_rows =
     dict_comprehension ''companyname_Site_Code__c'' ''Name''
       (map (dict_of_zip [''Id'', ''Name'', ''companyname_Site_Code__c'']) result_rows) []"

text \<open>Lines 84-85: the lookup of an issue's site code.\<close>

definition site_name_of :: "(val \<times> val) list \<Rightarrow> val \<Rightarrow> val option" where
  "site_name_of table jira_companyname_site_code = map_of table jira_companyname_site_code"

text \<open>Query results in which the site code \<open>NY01\<close> comes twice.\<close>

definition duplicated_site_rows :: "val list list" where
  "duplicated_site_rows =
     [[VStr ''a01'', VStr ''North Yard'', VStr ''NY01''],
      [VStr ''a02'', VStr ''New Yard'', VStr ''NY01'']]"


section \<open>SurveyMonkey to Salesforce: \<open>get_survey_monkey_data\<close>\<close>




















section \<open>Stripe webhook: \<open>DataHandler.data_summary_insert\<close>\<close>






section \<open>Stripe events to the warehouse and Salesforce: \<open>prep_data\<close>\<close>















section \<open>Stripe events to the warehouse and Salesforce: the run\<close>





















section \<open>The audit log across a run\<close>


chapter \<open>Properties\<close>

section \<open>The staging scan\<close>

lemma scan_rest_follows:
  "follows scan r rs \<Longrightarrow>
   scan_rest scan js r acc = Some (acc @ concat (map (\<lambda>p. map js (Items p)) rs))"
proof (induction rs arbitrary: r acc)
  case Nil
  then show ?case by (subst scan_rest.simps) simp
next
  case (Cons r' rs)
  then obtain k where k: "LastEvaluatedKey r = Some k" "scan (Some k) = r'" "follows scan r' rs"
    by (auto split: option.splits)
  show ?case
    by (subst scan_rest.simps) (simp add: k Cons.IH [OF k(3)])
qed

text \<open>
  C9 (as amended).  When the scan ends after finitely many pages, the call returns; the
  result is the items of the pages after the first when those pages hold at least one
  item, and the items of the first page otherwise (a single-page scan, or a paginated
  scan whose later pages are all empty).
\<close>

theorem get_all_dynamo_data_pages:
  assumes "follows scan (scan None) rs"
  shows "get_all_dynamo_data scan js =
           Some (if concat (map (\<lambda>p. map js (Items p)) rs) \<noteq> []
                 then concat (map (\<lambda>p. map js (Items p)) rs)
                 else map js (Items (scan None)))"
  using scan_rest_follows [OF assms, of js "[]"]
  by (simp add: get_all_dynamo_data_def)

theorem get_all_dynamo_data_pages_witness:
  "follows table_two_pages (table_two_pages None) [table_two_pages (Some 1)] \<and>
   get_all_dynamo_data table_two_pages id = Some [''evt_2'']"
proof -
  have f: "follows table_two_pages (table_two_pages None) [table_two_pages (Some 1)]"
    by (simp add: table_two_pages_def)
  show ?thesis
    using f get_all_dynamo_data_pages [OF f, of id]
    by (simp add: table_two_pages_def)
qed

text \<open>
  C9 (as stated) fails: the scan of \<open>table_empty_tail\<close> paginates (its first response has
  a \<open>LastEvaluatedKey\<close>), yet the first page's item is what is returned.
\<close>

theorem get_all_dynamo_data_counterexample:
  "LastEvaluatedKey (table_empty_tail None) \<noteq> None \<and>
   get_all_dynamo_data table_empty_tail id = Some (Items (table_empty_tail None)) \<and>
   Items (table_empty_tail None) = [''evt_1'']"
proof -
  have f: "follows table_empty_tail (table_empty_tail None) [table_empty_tail (Some 1)]"
    by (simp add: table_empty_tail_def)
  have "scan_rest table_empty_tail id (table_empty_tail None) [] = Some []"
    using scan_rest_follows [OF f, of id "[]"] by (simp add: table_empty_tail_def)
  then show ?thesis
    by (simp add: get_all_dynamo_data_def table_empty_tail_def)
qed

section \<open>\<open>MySQLRpts\<close>: what a caller can observe of a write\<close>

lemma exec_simple_returns: "fst (exec_simple conn stmt db) = Inr ()"
  by (simp add: exec_simple_def split: sum.splits)

lemma insert_data_returns: "fst (insert_data conn stmt data db) = Inr ()"
  by (simp add: insert_data_def split: sum.splits)

lemma etl_log_returns:
  "fst (etl_log rt conn etl_process source target max_date db) =
     (if truthy max_date
      then (case convert_datetime rt max_date True False of Inl e \<Rightarrow> Inl e | Inr d \<Rightarrow> Inr ())
      else Inr ())"
  by (simp add: etl_log_def and_then_def split: sum.splits)

lemma strokes_reads_III: "convert_datetime strokes (VStr ''III'') True False = Inr (VDatetime 3)"
  by (simp add: convert_datetime_def and_then_def strokes_def)

text \<open>
  C10 (as amended).  \<open>exec_simple\<close> and \<open>insert_data\<close> return normally on every input and
  for every behaviour of the connection; \<open>etl_log\<close> returns normally exactly when
  \<open>max_date\<close> is falsy or converts to a \<open>datetime\<close>.  Whatever \<open>execute\<close> or \<open>commit\<close>
  raise never reaches the caller; what the conversion of \<open>max_date\<close> raises does.
\<close>

theorem mysqlrpts_writes_return:
  "fst (exec_simple conn stmt db) = Inr () \<and>
   fst (insert_data conn stmt data db) = Inr () \<and>
   fst (etl_log rt conn etl_process source target max_date db) =
     (if truthy max_date
      then (case convert_datetime rt max_date True False of Inl e \<Rightarrow> Inl e | Inr d \<Rightarrow> Inr ())
      else Inr ())"
  by (simp only: exec_simple_returns insert_data_returns etl_log_returns simp_thms)

text \<open>The three writes against a server that rejects every statement.\<close>

theorem mysqlrpts_writes_return_witness:
  "fst (exec_simple (mysql_server (\<lambda>_. True)) (InsertSelect ''a'' ''b'') empty_warehouse) = Inr () \<and>
   fst (insert_data (mysql_server (\<lambda>_. True)) (InsertSelect ''a'' ''b'') [] empty_warehouse) = Inr () \<and>
   fst (etl_log strokes (mysql_server (\<lambda>_. True)) (VStr ''p'') (VStr ''s'') (VStr ''t'')
          (VStr ''III'') empty_warehouse) = Inr ()"
  using mysqlrpts_writes_return
          [where conn = "mysql_server (\<lambda>_. True)" and stmt = "InsertSelect ''a'' ''b''"
             and db = empty_warehouse and rt = strokes and max_date = "VStr ''III''"
             and data = "[]" and etl_process = "VStr ''p''" and source = "VStr ''s''"
             and target = "VStr ''t''"]
  by (simp only: strokes_reads_III truthy.simps list.simps sum.case if_True simp_thms)

text \<open>
  C10 (as stated) fails: with a \<open>max_date\<close> the date parser cannot read, \<open>etl_log\<close> raises
  before it reaches the \<open>try\<close>, although the server accepts every statement.
\<close>

theorem etl_log_raises_counterexample:
  "fst (etl_log strokes (mysql_server (\<lambda>_. False)) (VStr ''p'') (VStr ''s'') (VStr ''t'')
          (VStr ''soon'') empty_warehouse) = Inl ValueError"
  by (simp add: etl_log_def convert_datetime_def and_then_def strokes_def)

section \<open>The site lookup table and duplicated keys\<close>

lemma dict_comprehension_keeps:
  "dict_comprehension kf vf rows table = Inr d \<Longrightarrow>
   \<forall>r\<in>set rows. getitem r kf \<noteq> Inr k \<Longrightarrow> map_of d k = map_of table k"
proof (induction rows arbitrary: table)
  case Nil
  then show ?case by simp
next
  case (Cons row rows)
  from Cons.prems(1) obtain k' v' where
    kv: "getitem row kf = Inr k'" "getitem row vf = Inr v'"
    and rest: "dict_comprehension kf vf rows (AList.update k' v' table) = Inr d"
    by (auto simp: and_then_def split: sum.splits)
  from Cons.prems(2) kv have "k' \<noteq> k" by auto
  moreover have "map_of d k = map_of (AList.update k' v' table) k"
    using Cons.IH [OF rest] Cons.prems(2) by simp
  ultimately show ?case by (simp add: update_conv')
qed

lemma dict_comprehension_last_seen:
  "dict_comprehension kf vf (pre @ row # post) table = Inr d \<Longrightarrow>
   getitem row kf = Inr k \<Longrightarrow> getitem row vf = Inr v \<Longrightarrow>
   \<forall>r\<in>set post. getitem r kf \<noteq> Inr k \<Longrightarrow> map_of d k = Some v"
proof (induction pre arbitrary: table)
  case Nil
  then have "dict_comprehension kf vf post (AList.update k v table) = Inr d"
    by (simp add: and_then_def)
  from dict_comprehension_keeps [OF this Nil.prems(4)] show ?case
    by (simp add: update_conv')
next
  case (Cons p pre)
  from Cons.prems(1) obtain k' v' where
    "dict_comprehension kf vf (pre @ row # post) (AList.update k' v' table) = Inr d"
    by (auto simp: and_then_def split: sum.splits)
  from Cons.IH [OF this Cons.prems(2,3,4)] show ?case .
qed

lemma site_row_fields:
  "getitem (dict_of_zip [''Id'', ''Name'', ''companyname_Site_Code__c''] [i, name, code])
     ''companyname_Site_Code__c'' = Inr code"
  "getitem (dict_of_zip [''Id'', ''Name'', ''companyname_Site_Code__c''] [i, name, code])
     ''Name'' = Inr name"
  by (simp_all add: dict_of_zip_def setitem_def getitem_def)

lemma duplicated_site_table:
  "SitecompanynameCodesNames_dict duplicated_site_rows = Inr [(VStr ''NY01'', VStr ''New Yard'')]"
  by (simp add: SitecompanynameCodesNames_dict_def duplicated_site_rows_def dict_of_zip_def
      setitem_def getitem_def and_then_def)

text \<open>
  C5 (as amended).  When the table is built, the name looked up for a site code is the name
  of the last row that carries the code: every later row with the same code replaces what
  an earlier one stored.  The construction yields the table and nothing else; it has no
  warning to give.
\<close>

theorem site_table_last_seen:
  assumes "SitecompanynameCodesNames_dict (pre @ [i, name, code] # post) = Inr table"
    and "\<forall>r\<in>set post.
           getitem (dict_of_zip [''Id'', ''Name'', ''companyname_Site_Code__c''] r)
             ''companyname_Site_Code__c'' \<noteq> Inr code"
  shows "site_name_of table code = Some name"
proof -
  let ?z = "dict_of_zip [''Id'', ''Name'', ''companyname_Site_Code__c'']"
  have "dict_comprehension ''companyname_Site_Code__c'' ''Name''
          (map ?z pre @ ?z [i, name, code] # map ?z post) [] = Inr table"
    using assms(1) by (simp add: SitecompanynameCodesNames_dict_def)
  moreover have "\<forall>r\<in>set (map ?z post). getitem r ''companyname_Site_Code__c'' \<noteq> Inr code"
    using assms(2) by simp
  ultimately show ?thesis
    unfolding site_name_of_def
    by (rule dict_comprehension_last_seen [OF _ site_row_fields])
qed

theorem site_table_last_seen_witness:
  "SitecompanynameCodesNames_dict
     ([[VStr ''a01'', VStr ''North Yard'', VStr ''NY01'']] @
      [VStr ''a02'', VStr ''New Yard'', VStr ''NY01''] # [[VStr ''a03'', VStr ''Pier'', VStr ''SF02'']]) =
     Inr [(VStr ''NY01'', VStr ''New Yard''), (VStr ''SF02'', VStr ''Pier'')] \<and>
   site_name_of [(VStr ''NY01'', VStr ''New Yard''), (VStr ''SF02'', VStr ''Pier'')] (VStr ''NY01'') =
     Some (VStr ''New Yard'')"
proof -
  have a: "SitecompanynameCodesNames_dict
             ([[VStr ''a01'', VStr ''North Yard'', VStr ''NY01'']] @
              [VStr ''a02'', VStr ''New Yard'', VStr ''NY01''] #
              [[VStr ''a03'', VStr ''Pier'', VStr ''SF02'']]) =
           Inr [(VStr ''NY01'', VStr ''New Yard''), (VStr ''SF02'', VStr ''Pier'')]"
    by (simp add: SitecompanynameCodesNames_dict_def dict_of_zip_def setitem_def getitem_def
        and_then_def)
  have b: "\<forall>r\<in>set [[VStr ''a03'', VStr ''Pier'', VStr ''SF02'']].
             getitem (dict_of_zip [''Id'', ''Name'', ''companyname_Site_Code__c''] r)
               ''companyname_Site_Code__c'' \<noteq> Inr (VStr ''NY01'')"
    by (simp add: dict_of_zip_def setitem_def getitem_def)
  from site_table_last_seen [OF a b] a show ?thesis by simp
qed

text \<open>
  C5 (as stated) fails: of two rows with the site code \<open>NY01\<close>, the table holds the second
  one's name; the first-seen name \<open>North Yard\<close> is gone.
\<close>

theorem site_table_first_seen_counterexample:
  "SitecompanynameCodesNames_dict duplicated_site_rows = Inr [(VStr ''NY01'', VStr ''New Yard'')] \<and>
   site_name_of [(VStr ''NY01'', VStr ''New Yard'')] (VStr ''NY01'') \<noteq> Some (VStr ''North Yard'')"
  by (simp add: duplicated_site_table site_name_of_def)

section \<open>The screening-list comparator\<close>
















text \<open>
  C4.  The comparator does not return the best-scoring candidate: the assignment per
  candidate above the threshold leaves the last of them, the lowest-scoring one among the
  ranked five.  Here \<open>alpha\<close> scores 90 and \<open>beta\<close> scores 70, and \<open>beta\<close> is returned.
\<close>

theorem compare_returns_lowest_above_threshold:
  "alpha_scorer ''order 17'' ''alpha'' = 90 \<and> alpha_scorer ''order 17'' ''beta'' = 70 \<and>
   process_extract alpha_scorer ''order 17'' [''alpha'', ''beta''] = [(''alpha'', 90), (''beta'', 70)] \<and>
   compare_orders_with_screening_list alpha_scorer [''order 17''] [''alpha'', ''beta''] =
     [(''order 17'', ''beta'')]"
  by (simp add: compare_orders_with_screening_list_def possibilities_def process_extract_def
      alpha_scorer_def)

section \<open>Rate limiting in the SurveyMonkey fetch\<close>














section \<open>Missing fields: the sentinel and what becomes of it\<close>













section \<open>The run: concrete runs\<close>

















section \<open>The run: the audit log\<close>






















section \<open>The run: the watermark\<close>












end
